theory Spec2Isabelle
  imports Main "HOL-Library.Char_ord" "HOL-Library.List_Lexorder"
begin

section \<open>The interactive pipeline explorer (\<^verbatim>\<open>xdsl/interactive/app.py\<close>)\<close>

text \<open>
  The class \<^verbatim>\<open>InputApp\<close> holds the text of the input area, the text of the output area,
  the label with the query, and two reactive variables: \<^verbatim>\<open>pass_pipeline\<close>, the tuple of the
  selected pass classes, and \<^verbatim>\<open>current_module\<close>, a module, an exception or \<^verbatim>\<open>None\<close>. Its
  methods are embedded below as functions from the state to the new state, one definition
  per method. That an assignment to a reactive variable makes the framework call the
  watcher of the variable is the framework's part; a statement about a method followed by
  its watcher composes the two functions.

  The parser, the context, the passes and the printer live in other modules of xDSL. They
  are parameters of the model (the record \<open>services\<close>): each is a function of its
  arguments, and a call that may raise returns a sum, \<open>Inl\<close> carrying the exception.
  The exceptions of the model are the instances of Python's \<^verbatim>\<open>Exception\<close>, the class
  that the handler of \<^verbatim>\<open>update_current_module\<close> names and that the annotation of
  \<^verbatim>\<open>current_module\<close> admits.
\<close>

subsection \<open>Data\<close>

text \<open>The annotation \<^verbatim>\<open>ModuleOp | Exception | None\<close> of \<^verbatim>\<open>current_module\<close>.\<close>

datatype ('m, 'e) module_state = PyNone | PyModuleOp 'm | PyException 'e

text \<open>
  The collaborators. \<open>'d\<close> is a dialect, \<open>'p\<close> a pass class, \<open>'i\<close> a pass instance,
  \<open>'ctx\<close> a context, \<open>'m\<close> a module and \<open>'e\<close> an exception. The context and the module
  are mutable objects in Python: a call that may change them returns the changed ones.
  \<^item> \<open>MLContext b\<close> is \<^verbatim>\<open>MLContext(b)\<close>, \<open>load_dialect ctx d\<close> is \<^verbatim>\<open>ctx.load_dialect(d)\<close>;
  \<^item> \<open>parse_module ctx text\<close> is \<^verbatim>\<open>Parser(ctx, text).parse_module()\<close>;
  \<^item> \<open>new_pass p\<close> is the constructor call \<^verbatim>\<open>p()\<close>, \<open>pass_name p\<close> is \<^verbatim>\<open>p.name\<close>;
  \<^item> \<open>pass_apply i ctx m\<close> is \<^verbatim>\<open>i.apply(ctx, m)\<close> of one pass instance;
  \<^item> \<open>Printer_print v\<close> is the text that \<^verbatim>\<open>Printer(stream).print(v)\<close> writes to the
    stream, for an exception (\<open>Inl\<close>) or a module (\<open>Inr\<close>).
\<close>

record ('d, 'p, 'i, 'ctx, 'm, 'e) services =
  MLContext :: "bool \<Rightarrow> 'ctx"
  load_dialect :: "'ctx \<Rightarrow> 'd \<Rightarrow> 'ctx"
  get_all_dialects :: "'d list"
  get_all_passes :: "'p list"
  pass_name :: "'p \<Rightarrow> string"
  parse_module :: "'ctx \<Rightarrow> string \<Rightarrow> 'e + 'ctx \<times> 'm"
  new_pass :: "'p \<Rightarrow> 'e + 'i"
  pass_apply :: "'i \<Rightarrow> 'ctx \<Rightarrow> 'm \<Rightarrow> 'e + 'ctx \<times> 'm"
  Printer_print :: "'e + 'm \<Rightarrow> string"

text \<open>
  The state of the application: the texts of the three widgets, the two reactive
  variables, and the text last handed to \<^verbatim>\<open>pyclip_copy\<close> (\<open>None\<close> before the first copy).
\<close>

record ('p, 'm, 'e) InputApp =
  input_text_area :: string
  output_text_area :: string
  selected_query_label :: string
  current_module :: "('m, 'e) module_state"
  pass_pipeline :: "'p list"
  pasteboard :: "string option"

text \<open>
  The calls that \<^verbatim>\<open>update_current_module\<close> makes to its collaborators, in the order in
  which it makes them. The functions below return this list next to their result, so
  that a statement can say which calls were made and with which arguments.
\<close>

datatype ('d, 'p, 'i, 'ctx, 'm) call =
    Call_MLContext bool
  | Call_load_dialect 'd
  | Call_parse_module 'ctx string
  | Call_new_pass 'p
  | Call_pass_apply 'i 'ctx 'm

subsection \<open>The registry \<^verbatim>\<open>ALL_PASSES\<close>\<close>

text \<open>
  \<^verbatim>\<open>ALL_PASSES = tuple(sorted((p.name, p) for p in get_all_passes()))\<close>. The pairs are
  ordered by name. (Two different classes of one name would make Python compare the
  classes and stop the import with a \<^verbatim>\<open>TypeError\<close>; the registry of xDSL has none.)
\<close>

definition ALL_PASSES :: "('d, 'p, 'i, 'ctx, 'm, 'e) services \<Rightarrow> (string \<times> 'p) list" where
  "ALL_PASSES svc = sort_key fst (map (\<lambda>p. (pass_name svc p, p)) (get_all_passes svc))"

subsection \<open>\<^verbatim>\<open>update_pass_pipeline\<close> and \<^verbatim>\<open>clear_passes\<close>\<close>

text \<open>
  The loop \<^verbatim>\<open>for name, value in ALL_PASSES\<close>: the first entry whose name is the selected
  one is appended to the pipeline and the method returns; with no such entry the state
  is left as it is.
\<close>

fun update_pass_pipeline_loop ::
  "string \<Rightarrow> (string \<times> 'p) list \<Rightarrow> ('p, 'm, 'e) InputApp \<Rightarrow> ('p, 'm, 'e) InputApp" where
  "update_pass_pipeline_loop selected_pass [] s = s"
| "update_pass_pipeline_loop selected_pass ((name, val) # rest) s =
     (if name = selected_pass then s\<lparr>pass_pipeline := pass_pipeline s @ [val]\<rparr>
      else update_pass_pipeline_loop selected_pass rest s)"

definition update_pass_pipeline ::
  "('d, 'p, 'i, 'ctx, 'm, 'e) services \<Rightarrow> string \<Rightarrow> ('p, 'm, 'e) InputApp \<Rightarrow> ('p, 'm, 'e) InputApp" where
  "update_pass_pipeline svc selected_pass s =
     update_pass_pipeline_loop selected_pass (ALL_PASSES svc) s"

definition clear_passes :: "('p, 'm, 'e) InputApp \<Rightarrow> ('p, 'm, 'e) InputApp" where
  "clear_passes s = s\<lparr>pass_pipeline := []\<rparr>"

subsection \<open>The query text\<close>

text \<open>Python's \<^verbatim>\<open>sep.join(xs)\<close> on strings.\<close>

fun str_join :: "string \<Rightarrow> string list \<Rightarrow> string" where
  "str_join sep [] = []"
| "str_join sep [x] = x"
| "str_join sep (x # y # ys) = x @ sep @ str_join sep (y # ys)"

text \<open>The line feed \<^verbatim>\<open>"\n"\<close>.\<close>

definition LF :: string where
  "LF = [CHR 0x0A]"

subsection \<open>\<^verbatim>\<open>update_current_module\<close>\<close>

text \<open>
  The list comprehension \<^verbatim>\<open>[p() for p in self.pass_pipeline]\<close>: the classes are
  instantiated from left to right, and the first constructor that raises ends the
  comprehension.
\<close>

fun instantiate_passes ::
  "('d, 'p, 'i, 'ctx, 'm, 'e) services \<Rightarrow> 'p list \<Rightarrow>
   ('d, 'p, 'i, 'ctx, 'm) call list \<times> ('e + 'i list)" where
  "instantiate_passes svc [] = ([], Inr [])"
| "instantiate_passes svc (p # ps) =
     (case new_pass svc p of
        Inl e \<Rightarrow> ([Call_new_pass p], Inl e)
      | Inr i \<Rightarrow>
          (case instantiate_passes svc ps of
             (calls, Inl e) \<Rightarrow> (Call_new_pass p # calls, Inl e)
           | (calls, Inr is) \<Rightarrow> (Call_new_pass p # calls, Inr (i # is))))"

text \<open>Modelled from the spec: \<^verbatim>\<open>PipelinePass(passes).apply(ctx, module)\<close> of \<^verbatim>\<open>xdsl.passes\<close>,
  which is not among the source files. The specification has the passes applied to the
  module in place, in list order, the first failure aborting the remaining ones; a pass
  sees the context and the module as its predecessors left them.
\<close>

fun PipelinePass_apply ::
  "('d, 'p, 'i, 'ctx, 'm, 'e) services \<Rightarrow> 'i list \<Rightarrow> 'ctx \<Rightarrow> 'm \<Rightarrow>
   ('d, 'p, 'i, 'ctx, 'm) call list \<times> ('e + 'ctx \<times> 'm)" where
  "PipelinePass_apply svc [] ctx m = ([], Inr (ctx, m))"
| "PipelinePass_apply svc (i # is) ctx m =
     (case pass_apply svc i ctx m of
        Inl e \<Rightarrow> ([Call_pass_apply i ctx m], Inl e)
      | Inr (ctx', m') \<Rightarrow>
          (case PipelinePass_apply svc is ctx' m' of
             (calls, r) \<Rightarrow> (Call_pass_apply i ctx m # calls, r)))"

text \<open>
  Lines 141 to 143: a new context, into which every dialect of \<^verbatim>\<open>get_all_dialects()\<close>
  is loaded, in the order of that list.
\<close>

definition load_all_dialects :: "('d, 'p, 'i, 'ctx, 'm, 'e) services \<Rightarrow> 'ctx" where
  "load_all_dialects svc = foldl (load_dialect svc) (MLContext svc True) (get_all_dialects svc)"

definition load_all_dialects_calls ::
  "('d, 'p, 'i, 'ctx, 'm, 'e) services \<Rightarrow> ('d, 'p, 'i, 'ctx, 'm) call list" where
  "load_all_dialects_calls svc = Call_MLContext True # map Call_load_dialect (get_all_dialects svc)"

text \<open>
  The body of the \<^verbatim>\<open>try\<close> statement (lines 141 to 147), up to the value it leaves in the
  local variable \<^verbatim>\<open>module\<close>: \<open>Inl e\<close> when a call raised \<open>e\<close>, which ends the body at that
  call, and \<open>Inr module\<close> when the body ran to its end.
\<close>

definition try_body ::
  "('d, 'p, 'i, 'ctx, 'm, 'e) services \<Rightarrow> string \<Rightarrow> 'p list \<Rightarrow>
   ('d, 'p, 'i, 'ctx, 'm) call list \<times> ('e + 'm)" where
  "try_body svc input_text pipeline =
     (let ctx = load_all_dialects svc;
          calls0 = load_all_dialects_calls svc @ [Call_parse_module ctx input_text]
      in case parse_module svc ctx input_text of
           Inl e \<Rightarrow> (calls0, Inl e)
         | Inr (ctx1, module) \<Rightarrow>
             (case instantiate_passes svc pipeline of
                (calls1, Inl e) \<Rightarrow> (calls0 @ calls1, Inl e)
              | (calls1, Inr passes) \<Rightarrow>
                  (case PipelinePass_apply svc passes ctx1 module of
                     (calls2, Inl e) \<Rightarrow> (calls0 @ calls1 @ calls2, Inl e)
                   | (calls2, Inr (ctx2, module2)) \<Rightarrow> (calls0 @ calls1 @ calls2, Inr module2))))"

text \<open>
  The method: the empty text gives \<^verbatim>\<open>None\<close> before the \<^verbatim>\<open>try\<close> is entered; otherwise
  the module that the body produced is stored, or the exception that the handler caught.
\<close>

definition update_current_module ::
  "('d, 'p, 'i, 'ctx, 'm, 'e) services \<Rightarrow> ('p, 'm, 'e) InputApp \<Rightarrow>
   ('d, 'p, 'i, 'ctx, 'm) call list \<times> ('p, 'm, 'e) InputApp" where
  "update_current_module svc s =
     (let input_text = input_text_area s
      in if input_text = [] then ([], s\<lparr>current_module := PyNone\<rparr>)
         else (case try_body svc input_text (pass_pipeline s) of
                 (calls, Inr module) \<Rightarrow> (calls, s\<lparr>current_module := PyModuleOp module\<rparr>)
               | (calls, Inl e) \<Rightarrow> (calls, s\<lparr>current_module := PyException e\<rparr>)))"

subsection \<open>\<^verbatim>\<open>watch_pass_pipeline\<close>, \<^verbatim>\<open>watch_current_module\<close> and the buttons\<close>

definition watch_pass_pipeline ::
  "('d, 'p, 'i, 'ctx, 'm, 'e) services \<Rightarrow> ('p, 'm, 'e) InputApp \<Rightarrow>
   ('d, 'p, 'i, 'ctx, 'm) call list \<times> ('p, 'm, 'e) InputApp" where
  "watch_pass_pipeline svc s =
     (let new_passes = LF @ str_join ('', '' @ LF) (map (pass_name svc) (pass_pipeline s));
          new_label = ''xdsl-opt -p '' @ new_passes
      in update_current_module svc (s\<lparr>selected_query_label := new_label\<rparr>))"

definition watch_current_module ::
  "('d, 'p, 'i, 'ctx, 'm, 'e) services \<Rightarrow> ('p, 'm, 'e) InputApp \<Rightarrow> ('p, 'm, 'e) InputApp" where
  "watch_current_module svc s =
     (let output_text =
            (case current_module s of
               PyNone \<Rightarrow> ''No input''
             | PyException e \<Rightarrow> Printer_print svc (Inl e)
             | PyModuleOp m \<Rightarrow> Printer_print svc (Inr m))
      in s\<lparr>output_text_area := output_text\<rparr>)"

definition clear_input :: "('p, 'm, 'e) InputApp \<Rightarrow> ('p, 'm, 'e) InputApp" where
  "clear_input s = s\<lparr>input_text_area := []\<rparr>"

definition copy_output :: "('p, 'm, 'e) InputApp \<Rightarrow> ('p, 'm, 'e) InputApp" where
  "copy_output s = s\<lparr>pasteboard := Some (output_text_area s)\<rparr>"

definition copy_query ::
  "('d, 'p, 'i, 'ctx, 'm, 'e) services \<Rightarrow> ('p, 'm, 'e) InputApp \<Rightarrow> ('p, 'm, 'e) InputApp" where
  "copy_query svc s =
     (let selected_passes = LF @ str_join ('', '' @ LF) (map (pass_name svc) (pass_pipeline s));
          query = ''xdsl-opt -p '' @ selected_passes
      in s\<lparr>pasteboard := Some query\<rparr>)"

subsection \<open>Reading the list of calls\<close>

text \<open>
  Two projections of a list of calls: the pass classes whose constructor was called, and
  the pass instances whose \<^verbatim>\<open>apply\<close> was called, both in the order of the calls.
\<close>

fun instantiated_classes :: "('d, 'p, 'i, 'ctx, 'm) call list \<Rightarrow> 'p list" where
  "instantiated_classes [] = []"
| "instantiated_classes (Call_new_pass p # cs) = p # instantiated_classes cs"
| "instantiated_classes (c # cs) = instantiated_classes cs"

fun applied_passes :: "('d, 'p, 'i, 'ctx, 'm) call list \<Rightarrow> 'i list" where
  "applied_passes [] = []"
| "applied_passes (Call_pass_apply i ctx m # cs) = i # applied_passes cs"
| "applied_passes (c # cs) = applied_passes cs"

text \<open>
  What the passes themselves do when they are applied one after the other, in list order,
  from a context and a module: the first exception stops the run. It is written with
  \<open>foldl\<close> over the function \<open>pass_apply\<close> of the collaborators alone, and serves to
  say in a hypothesis that a prefix of the passes succeeded.
\<close>

definition apply_in_order ::
  "('d, 'p, 'i, 'ctx, 'm, 'e) services \<Rightarrow> 'i list \<Rightarrow> 'ctx \<times> 'm \<Rightarrow> 'e + 'ctx \<times> 'm" where
  "apply_in_order svc insts start =
     foldl (\<lambda>r i. case r of Inl e \<Rightarrow> Inl e | Inr (ctx, m) \<Rightarrow> pass_apply svc i ctx m) (Inr start) insts"

subsection \<open>A small instance of the collaborators\<close>

text \<open>
  Dialects are numbers and a context is the list of dialects loaded into it. A pass class
  is its name and an instance is the name again. A module is the list of the source text
  and the names of the passes applied to it. The text \<^verbatim>\<open>?\<close> does not parse, and the pass
  \<^verbatim>\<open>bad\<close> raises when it is applied. The printer writes an exception as its message and a
  module as the concatenation of its entries.
\<close>

definition demo_services :: "(nat, string, string, nat list, string list, string) services" where
  "demo_services =
     \<lparr>MLContext = (\<lambda>allow_unregistered. []),
      load_dialect = (\<lambda>ctx d. ctx @ [d]),
      get_all_dialects = [0, 1],
      get_all_passes = [''dce'', ''cse'', ''bad''],
      pass_name = (\<lambda>p. p),
      parse_module = (\<lambda>ctx text. if text = ''?'' then Inl ''parse error'' else Inr (ctx, [text])),
      new_pass = (\<lambda>p. Inr p),
      pass_apply = (\<lambda>i ctx m. if i = ''bad'' then Inl ''pass failed'' else Inr (ctx, m @ [i])),
      Printer_print = (\<lambda>v. case v of Inl e \<Rightarrow> e | Inr m \<Rightarrow> concat m)\<rparr>"

definition demo_app :: "(string, string list, string) InputApp" where
  "demo_app =
     \<lparr>input_text_area = ''m'', output_text_area = [], selected_query_label = [],
      current_module = PyNone, pass_pipeline = [''dce'', ''bad'', ''cse''], pasteboard = None\<rparr>"

text \<open>
  The state \<open>demo_app\<close> after the text was changed to \<^verbatim>\<open>?\<close>, the module recomputed and
  shown, and the text changed back: the same text and pipeline as \<open>demo_app\<close>, with another
  \<^verbatim>\<open>current_module\<close> and another output text.
\<close>

definition demo_app_later :: "(string, string list, string) InputApp" where
  "demo_app_later =
     (watch_current_module demo_services
        (snd (update_current_module demo_services (demo_app\<lparr>input_text_area := ''?''\<rparr>))))
     \<lparr>input_text_area := ''m''\<rparr>"

section \<open>Properties\<close>

subsection \<open>Auxiliary facts\<close>

lemmas demo_defs = demo_services_def demo_app_def demo_app_later_def update_current_module_def
  try_body_def load_all_dialects_def load_all_dialects_calls_def watch_current_module_def Let_def
  apply_in_order_def

lemma instantiate_passes_all_ok:
  "map (new_pass svc) ps = map Inr insts \<Longrightarrow>
   instantiate_passes svc ps = (map Call_new_pass ps, Inr insts)"
  by (induction ps arbitrary: insts) (auto split: sum.splits prod.splits)

lemma PipelinePass_apply_append_fail:
  "snd (PipelinePass_apply svc pre ctx m) = Inr (ctx', m') \<Longrightarrow> pass_apply svc i ctx' m' = Inl e \<Longrightarrow>
   PipelinePass_apply svc (pre @ i # post) ctx m =
     (fst (PipelinePass_apply svc pre ctx m) @ [Call_pass_apply i ctx' m'], Inl e)"
  by (induction pre arbitrary: ctx m) (auto split: sum.splits prod.splits)

lemma foldl_Inl:
  "foldl (\<lambda>r i. case r of Inl e \<Rightarrow> Inl e | Inr (ctx, m) \<Rightarrow> f i ctx m) (Inl e) insts = Inl e"
  by (induction insts) auto

lemma PipelinePass_apply_result:
  "snd (PipelinePass_apply svc insts ctx m) = apply_in_order svc insts (ctx, m)"
proof (induction insts arbitrary: ctx m)
  case Nil
  show ?case by (simp add: apply_in_order_def)
next
  case (Cons i insts)
  show ?case
  proof (cases "pass_apply svc i ctx m")
    case (Inl e)
    then show ?thesis by (simp add: apply_in_order_def foldl_Inl)
  next
    case (Inr r)
    obtain ctx' m' where r: "r = (ctx', m')" by (cases r)
    obtain calls res where rest: "PipelinePass_apply svc insts ctx' m' = (calls, res)"
      by (cases "PipelinePass_apply svc insts ctx' m'")
    from Cons.IH [of ctx' m'] rest have "res = apply_in_order svc insts (ctx', m')" by simp
    with Inr r rest show ?thesis by (simp add: apply_in_order_def)
  qed
qed

lemma instantiated_classes_append:
  "instantiated_classes (cs @ cs') = instantiated_classes cs @ instantiated_classes cs'"
  by (induction cs rule: instantiated_classes.induct) simp_all

lemma applied_passes_append:
  "applied_passes (cs @ cs') = applied_passes cs @ applied_passes cs'"
  by (induction cs rule: applied_passes.induct) simp_all

lemma instantiated_classes_new: "instantiated_classes (map Call_new_pass ps) = ps"
  by (induction ps) simp_all

lemma applied_passes_new: "applied_passes (map Call_new_pass ps) = []"
  by (induction ps) simp_all

lemma instantiated_classes_load: "instantiated_classes (map Call_load_dialect ds) = []"
  by (induction ds) simp_all

lemma applied_passes_load: "applied_passes (map Call_load_dialect ds) = []"
  by (induction ds) simp_all

lemma PipelinePass_apply_calls:
  "PipelinePass_apply svc insts ctx m = (calls, r) \<Longrightarrow>
   instantiated_classes calls = [] \<and> applied_passes calls = take (length calls) insts \<and>
   (case r of Inl e \<Rightarrow> 0 < length calls | Inr r' \<Rightarrow> length calls = length insts)"
proof (induction insts arbitrary: ctx m calls r)
  case Nil
  then show ?case by auto
next
  case (Cons i insts)
  show ?case
  proof (cases "pass_apply svc i ctx m")
    case (Inl e)
    from Cons.prems show ?thesis by (auto simp add: Inl)
  next
    case (Inr r')
    obtain ctx' m' where r': "r' = (ctx', m')" by (cases r')
    obtain calls' res where rest: "PipelinePass_apply svc insts ctx' m' = (calls', res)"
      by (cases "PipelinePass_apply svc insts ctx' m'")
    from Cons.prems Inr r' rest have eq: "calls = Call_pass_apply i ctx m # calls'" "r = res"
      by auto
    from Cons.IH [OF rest] eq show ?thesis
      by (auto split: sum.splits)
  qed
qed

lemma update_current_module_keeps:
  "input_text_area (snd (update_current_module svc s)) = input_text_area s"
  "output_text_area (snd (update_current_module svc s)) = output_text_area s"
  "selected_query_label (snd (update_current_module svc s)) = selected_query_label s"
  "pass_pipeline (snd (update_current_module svc s)) = pass_pipeline s"
  "pasteboard (snd (update_current_module svc s)) = pasteboard s"
  by (auto simp: update_current_module_def Let_def split: sum.splits prod.splits)

lemma str_join_Cons: "str_join sep (x # xs) = x @ concat (map (\<lambda>y. sep @ y) xs)"
  by (induction xs arbitrary: x) simp_all

lemma update_pass_pipeline_loop_found:
  "(selected_pass, q) \<in> set entries \<Longrightarrow>
   \<exists>p. (selected_pass, p) \<in> set entries \<and>
       update_pass_pipeline_loop selected_pass entries s = s\<lparr>pass_pipeline := pass_pipeline s @ [p]\<rparr>"
proof (induction entries)
  case Nil
  then show ?case by simp
next
  case (Cons entry entries)
  obtain name val where entry: "entry = (name, val)" by (cases entry)
  show ?case
  proof (cases "name = selected_pass")
    case True
    with entry show ?thesis by auto
  next
    case False
    with Cons.prems entry have "(selected_pass, q) \<in> set entries" by auto
    from Cons.IH [OF this] False entry show ?thesis by auto
  qed
qed

lemma update_current_module_calls:
  "fst (update_current_module svc s) =
     (if input_text_area s = [] then [] else fst (try_body svc (input_text_area s) (pass_pipeline s)))"
  by (auto simp: update_current_module_def Let_def split: sum.splits prod.splits)

lemma set_ALL_PASSES: "set (ALL_PASSES svc) = (\<lambda>p. (pass_name svc p, p)) ` set (get_all_passes svc)"
  by (simp add: ALL_PASSES_def)

subsection \<open>Claim C1\<close>

text \<open>
  Claim C1. Two runs of \<^verbatim>\<open>update_current_module\<close> from states with the same input text
  and the same pipeline store the same value in \<^verbatim>\<open>current_module\<close> and make the same
  calls, whatever else the two states hold: the value stored before, the output text, the
  label and the pasteboard, which is all that recomputations in between can have changed.
  The collaborators are functions of their arguments here.
\<close>

theorem update_current_module_deterministic:
  assumes "input_text_area s' = input_text_area s" and "pass_pipeline s' = pass_pipeline s"
  shows "current_module (snd (update_current_module svc s')) =
           current_module (snd (update_current_module svc s)) \<and>
         fst (update_current_module svc s') = fst (update_current_module svc s)"
  using assms by (auto simp: update_current_module_def Let_def split: sum.splits prod.splits)

theorem update_current_module_deterministic_witness:
  "input_text_area demo_app_later = input_text_area demo_app \<and>
   pass_pipeline demo_app_later = pass_pipeline demo_app \<and>
   current_module demo_app_later = PyException ''parse error'' \<and>
   current_module demo_app = PyNone \<and>
   current_module (snd (update_current_module demo_services demo_app_later)) =
     current_module (snd (update_current_module demo_services demo_app)) \<and>
   fst (update_current_module demo_services demo_app_later) =
     fst (update_current_module demo_services demo_app)"
proof -
  have same_text: "input_text_area demo_app_later = input_text_area demo_app"
    by (simp add: demo_defs)
  have pipeline: "pass_pipeline demo_app_later = pass_pipeline demo_app"
    by (simp add: demo_defs)
  have before: "current_module demo_app_later = PyException ''parse error''"
    "current_module demo_app = PyNone"
    by (simp_all add: demo_defs)
  from update_current_module_deterministic [OF same_text pipeline, of demo_services] same_text pipeline before show ?thesis
    by simp
qed

subsection \<open>Claim C2\<close>

text \<open>
  Claim C2. The text is not empty and parses, every constructor of the pipeline returns
  its instance, the instances \<open>pre\<close> are applied with success and the \<^verbatim>\<open>apply\<close> of the next
  instance \<open>i\<close> raises \<open>e\<close>. Then the method returns with \<^verbatim>\<open>current_module\<close> set to the
  exception \<open>e\<close> and nothing else changed, so no module is stored, in particular not the
  one that \<open>pre\<close> left behind; the output that \<^verbatim>\<open>watch_current_module\<close> then writes is the
  printed exception; and the passes applied are \<open>pre\<close> and \<open>i\<close>, none of the remaining
  \<open>post\<close>. The exception is a value of the resulting state: the method has no other way
  to end.
\<close>

theorem pass_failure_isolated:
  assumes "input_text_area s \<noteq> []"
    and "parse_module svc (load_all_dialects svc) (input_text_area s) = Inr (ctx1, m1)"
    and "map (new_pass svc) (pass_pipeline s) = map Inr (pre @ i # post)"
    and "apply_in_order svc pre (ctx1, m1) = Inr (ctx2, m2)"
    and "pass_apply svc i ctx2 m2 = Inl e"
  shows "snd (update_current_module svc s) = s\<lparr>current_module := PyException e\<rparr> \<and>
         output_text_area (watch_current_module svc (snd (update_current_module svc s))) =
           Printer_print svc (Inl e) \<and>
         applied_passes (fst (update_current_module svc s)) = pre @ [i]"
proof -
  let ?pre = "PipelinePass_apply svc pre ctx1 m1"
  have inst: "instantiate_passes svc (pass_pipeline s) =
      (map Call_new_pass (pass_pipeline s), Inr (pre @ i # post))"
    using assms(3) by (rule instantiate_passes_all_ok)
  have pre: "snd ?pre = Inr (ctx2, m2)"
    using assms(4) by (simp add: PipelinePass_apply_result)
  have app: "PipelinePass_apply svc (pre @ i # post) ctx1 m1 =
      (fst ?pre @ [Call_pass_apply i ctx2 m2], Inl e)"
    using pre assms(5) by (rule PipelinePass_apply_append_fail)
  have body: "try_body svc (input_text_area s) (pass_pipeline s) =
      (load_all_dialects_calls svc @ [Call_parse_module (load_all_dialects svc) (input_text_area s)]
         @ map Call_new_pass (pass_pipeline s) @ fst ?pre @ [Call_pass_apply i ctx2 m2], Inl e)"
    by (simp add: try_body_def Let_def assms(2) inst app)
  have upd: "update_current_module svc s =
      (load_all_dialects_calls svc @ [Call_parse_module (load_all_dialects svc) (input_text_area s)]
         @ map Call_new_pass (pass_pipeline s) @ fst ?pre @ [Call_pass_apply i ctx2 m2],
       s\<lparr>current_module := PyException e\<rparr>)"
    using assms(1) by (simp add: update_current_module_def Let_def body)
  obtain cs r where pre': "?pre = (cs, r)" by (cases ?pre)
  with pre have r: "r = Inr (ctx2, m2)" by simp
  from PipelinePass_apply_calls [OF pre'] r have calls: "applied_passes cs = pre"
    by simp
  show ?thesis
    by (simp add: upd pre' watch_current_module_def calls load_all_dialects_calls_def
        applied_passes_append applied_passes_load applied_passes_new)
qed

theorem pass_failure_isolated_witness:
  "input_text_area demo_app \<noteq> [] \<and>
   pass_pipeline demo_app = [''dce'', ''bad'', ''cse''] \<and>
   pass_apply demo_services ''dce'' [0, 1] [''m''] = Inr ([0, 1], [''m'', ''dce'']) \<and>
   pass_apply demo_services ''bad'' [0, 1] [''m'', ''dce''] = Inl ''pass failed'' \<and>
   snd (update_current_module demo_services demo_app) =
     demo_app\<lparr>current_module := PyException ''pass failed''\<rparr> \<and>
   output_text_area (watch_current_module demo_services
       (snd (update_current_module demo_services demo_app))) = ''pass failed'' \<and>
   Printer_print demo_services (Inr [''m'', ''dce'']) = ''mdce'' \<and>
   applied_passes (fst (update_current_module demo_services demo_app)) = [''dce'', ''bad'']"
proof -
  have nonempty: "input_text_area demo_app \<noteq> []"
    by (simp add: demo_defs)
  have parse: "parse_module demo_services (load_all_dialects demo_services)
      (input_text_area demo_app) = Inr ([0, 1], [''m''])"
    by (simp add: demo_defs)
  have new: "map (new_pass demo_services) (pass_pipeline demo_app) =
      map Inr ([''dce''] @ ''bad'' # [''cse''])"
    by (simp add: demo_defs)
  have first: "apply_in_order demo_services [''dce''] ([0, 1], [''m'']) =
      Inr ([0, 1], [''m'', ''dce''])"
    by (simp add: demo_defs)
  have second: "pass_apply demo_services ''bad'' [0, 1] [''m'', ''dce''] = Inl ''pass failed''"
    by (simp add: demo_defs)
  have pipeline: "pass_pipeline demo_app = [''dce'', ''bad'', ''cse'']"
    by (simp add: demo_app_def)
  have first': "pass_apply demo_services ''dce'' [0, 1] [''m''] = Inr ([0, 1], [''m'', ''dce''])"
    by (simp add: demo_services_def)
  have printed: "Printer_print demo_services (Inl ''pass failed'') = ''pass failed''"
    "Printer_print demo_services (Inr [''m'', ''dce'']) = ''mdce''"
    by (simp_all add: demo_services_def)
  note all = pass_failure_isolated [OF nonempty parse new first second]
  from all have "snd (update_current_module demo_services demo_app) =
      demo_app\<lparr>current_module := PyException ''pass failed''\<rparr>"
    and "output_text_area (watch_current_module demo_services
      (snd (update_current_module demo_services demo_app))) =
      Printer_print demo_services (Inl ''pass failed'')"
    and "applied_passes (fst (update_current_module demo_services demo_app)) = [''dce''] @ [''bad'']"
    by blast+
  with nonempty pipeline first' second printed show ?thesis
    by simp
qed

subsection \<open>Claim C3\<close>

text \<open>
  Claim C3. After \<^verbatim>\<open>update_current_module\<close> the value of \<^verbatim>\<open>current_module\<close> is \<^verbatim>\<open>None\<close>
  exactly when the input text is empty, for every pipeline; and with the empty text no
  collaborator is called at all, so the parser is not.
\<close>

theorem empty_iff_no_input:
  "(current_module (snd (update_current_module svc s)) = PyNone) = (input_text_area s = []) \<and>
   (input_text_area s = [] \<longrightarrow> fst (update_current_module svc s) = [])"
  by (auto simp: update_current_module_def Let_def split: sum.splits prod.splits)

theorem empty_iff_no_input_witness:
  "pass_pipeline (demo_app\<lparr>input_text_area := []\<rparr>) = [''dce'', ''bad'', ''cse''] \<and>
   current_module (snd (update_current_module demo_services (demo_app\<lparr>input_text_area := []\<rparr>))) =
     PyNone \<and>
   fst (update_current_module demo_services (demo_app\<lparr>input_text_area := []\<rparr>)) = [] \<and>
   current_module (snd (update_current_module demo_services demo_app)) \<noteq> PyNone"
  using empty_iff_no_input [of demo_services "demo_app\<lparr>input_text_area := []\<rparr>"] empty_iff_no_input [of demo_services demo_app]
  by (simp add: demo_app_def)

subsection \<open>Claim C4\<close>

text \<open>
  Claim C4. When the text is not empty and the parser raises \<open>e\<close>, the method stores the
  exception \<open>e\<close>, and its calls are those that build the context and the call of the
  parser: no pass class is instantiated and no pass is applied, for every pipeline.
\<close>

theorem parse_failure_runs_no_pass:
  assumes "input_text_area s \<noteq> []"
    and "parse_module svc (load_all_dialects svc) (input_text_area s) = Inl e"
  shows "update_current_module svc s =
           (load_all_dialects_calls svc @ [Call_parse_module (load_all_dialects svc) (input_text_area s)],
            s\<lparr>current_module := PyException e\<rparr>) \<and>
         instantiated_classes (fst (update_current_module svc s)) = [] \<and>
         applied_passes (fst (update_current_module svc s)) = []"
  using assms
  by (simp add: update_current_module_def try_body_def load_all_dialects_calls_def Let_def
      instantiated_classes_append applied_passes_append instantiated_classes_load applied_passes_load)

theorem parse_failure_runs_no_pass_witness:
  "update_current_module demo_services (demo_app\<lparr>input_text_area := ''?''\<rparr>) =
     ([Call_MLContext True, Call_load_dialect 0, Call_load_dialect 1, Call_parse_module [0, 1] ''?''],
      demo_app\<lparr>input_text_area := ''?'', current_module := PyException ''parse error''\<rparr>) \<and>
   instantiated_classes (fst (update_current_module demo_services (demo_app\<lparr>input_text_area := ''?''\<rparr>))) = [] \<and>
   applied_passes (fst (update_current_module demo_services (demo_app\<lparr>input_text_area := ''?''\<rparr>))) = []"
proof -
  let ?s = "demo_app\<lparr>input_text_area := ''?''\<rparr>"
  have nonempty: "input_text_area ?s \<noteq> []"
    by simp
  have parse: "parse_module demo_services (load_all_dialects demo_services) (input_text_area ?s) =
      Inl ''parse error''"
    by (simp add: demo_defs)
  from parse_failure_runs_no_pass [OF nonempty parse] show ?thesis
    by (simp add: demo_services_def load_all_dialects_def load_all_dialects_calls_def)
qed

subsection \<open>Claim C5\<close>

text \<open>
  Claim C5. On a text that is not empty the method first makes a new context with
  \<^verbatim>\<open>MLContext(True)\<close>, loads every dialect of \<^verbatim>\<open>get_all_dialects()\<close> into it and hands
  the parser this context, which depends on the collaborators alone and on nothing that an
  earlier run left in the state. When the text parses and the constructors return the
  instances \<open>insts\<close>, the constructor was called once for every entry of the pipeline, in
  list order, and the instances are handed to the pipeline pass with the context and the
  module of the parser. When applying them in list order succeeds with the module \<open>m2\<close>,
  the passes applied are \<open>insts\<close> in this order and \<open>m2\<close> is stored.
\<close>

theorem fresh_context_passes_in_order:
  assumes "input_text_area s \<noteq> []"
  shows "take (Suc (Suc (length (get_all_dialects svc)))) (fst (update_current_module svc s)) =
           Call_MLContext True # map Call_load_dialect (get_all_dialects svc) @
           [Call_parse_module
              (foldl (load_dialect svc) (MLContext svc True) (get_all_dialects svc))
              (input_text_area s)] \<and>
         (parse_module svc (load_all_dialects svc) (input_text_area s) = Inr (ctx1, m1) \<and>
          map (new_pass svc) (pass_pipeline s) = map Inr insts \<longrightarrow>
            instantiated_classes (fst (update_current_module svc s)) = pass_pipeline s \<and>
            fst (update_current_module svc s) =
              load_all_dialects_calls svc @
              Call_parse_module (load_all_dialects svc) (input_text_area s) #
              map Call_new_pass (pass_pipeline s) @ fst (PipelinePass_apply svc insts ctx1 m1) \<and>
            (apply_in_order svc insts (ctx1, m1) = Inr (ctx2, m2) \<longrightarrow>
               applied_passes (fst (update_current_module svc s)) = insts \<and>
               snd (update_current_module svc s) = s\<lparr>current_module := PyModuleOp m2\<rparr>))"
    (is "?fresh \<and> (?parsed \<and> ?constructed \<longrightarrow> ?classes \<and> ?log \<and> (?applied \<longrightarrow> ?order \<and> ?stored))")
proof -
  let ?text = "input_text_area s"
  let ?start = "load_all_dialects_calls svc @ [Call_parse_module (load_all_dialects svc) ?text]"
  have len: "length ?start = Suc (Suc (length (get_all_dialects svc)))"
    by (simp add: load_all_dialects_calls_def)
  have "\<exists>rest. fst (try_body svc ?text (pass_pipeline s)) = ?start @ rest"
    by (auto simp: try_body_def Let_def split: sum.splits prod.splits)
  then obtain rest where "fst (update_current_module svc s) = ?start @ rest"
    using assms by (auto simp: update_current_module_calls)
  with len have "take (Suc (Suc (length (get_all_dialects svc)))) (fst (update_current_module svc s)) = ?start"
    by simp
  then have fresh: ?fresh
    by (simp add: load_all_dialects_def load_all_dialects_calls_def)
  have rest: "?classes \<and> ?log \<and> (?applied \<longrightarrow> ?order \<and> ?stored)"
    if parse: ?parsed and new: ?constructed
  proof -
    obtain calls2 r where app: "PipelinePass_apply svc insts ctx1 m1 = (calls2, r)"
      by (cases "PipelinePass_apply svc insts ctx1 m1")
    have inst: "instantiate_passes svc (pass_pipeline s) = (map Call_new_pass (pass_pipeline s), Inr insts)"
      using new by (rule instantiate_passes_all_ok)
    have body: "fst (try_body svc ?text (pass_pipeline s)) =
        ?start @ map Call_new_pass (pass_pipeline s) @ calls2"
      by (auto simp: try_body_def Let_def parse inst app split: sum.splits)
    then have calls: "fst (update_current_module svc s) =
        ?start @ map Call_new_pass (pass_pipeline s) @ calls2"
      using assms by (simp add: update_current_module_calls)
    note facts = PipelinePass_apply_calls [OF app]
    have classes: ?classes
      by (simp add: calls facts instantiated_classes_append instantiated_classes_new
          instantiated_classes_load load_all_dialects_calls_def)
    have calls': ?log
      by (simp add: calls app)
    have ok: "?order \<and> ?stored" if ?applied
    proof -
      from that have r: "r = Inr (ctx2, m2)"
        using PipelinePass_apply_result [of svc insts ctx1 m1] app by simp
      with facts have "applied_passes calls2 = insts" by simp
      then have ?order
        by (simp add: calls applied_passes_append applied_passes_new applied_passes_load
            load_all_dialects_calls_def)
      moreover have ?stored
        using assms by (simp add: update_current_module_def try_body_def Let_def parse inst app r)
      ultimately show ?thesis ..
    qed
    from classes calls' ok show ?thesis by blast
  qed
  from fresh rest show ?thesis by blast
qed

theorem fresh_context_passes_in_order_witness:
  "input_text_area (demo_app\<lparr>pass_pipeline := [''dce'', ''cse'', ''dce'']\<rparr>) \<noteq> [] \<and>
   take 4 (fst (update_current_module demo_services
       (demo_app\<lparr>pass_pipeline := [''dce'', ''cse'', ''dce'']\<rparr>))) =
     [Call_MLContext True, Call_load_dialect 0, Call_load_dialect 1, Call_parse_module [0, 1] ''m''] \<and>
   instantiated_classes (fst (update_current_module demo_services
       (demo_app\<lparr>pass_pipeline := [''dce'', ''cse'', ''dce'']\<rparr>))) = [''dce'', ''cse'', ''dce''] \<and>
   applied_passes (fst (update_current_module demo_services
       (demo_app\<lparr>pass_pipeline := [''dce'', ''cse'', ''dce'']\<rparr>))) = [''dce'', ''cse'', ''dce''] \<and>
   snd (update_current_module demo_services (demo_app\<lparr>pass_pipeline := [''dce'', ''cse'', ''dce'']\<rparr>)) =
     demo_app\<lparr>pass_pipeline := [''dce'', ''cse'', ''dce''],
       current_module := PyModuleOp [''m'', ''dce'', ''cse'', ''dce'']\<rparr>"
proof -
  let ?s = "demo_app\<lparr>pass_pipeline := [''dce'', ''cse'', ''dce'']\<rparr>"
  have nonempty: "input_text_area ?s \<noteq> []"
    by (simp add: demo_app_def)
  have parse: "parse_module demo_services (load_all_dialects demo_services) (input_text_area ?s) =
      Inr ([0, 1], [''m''])"
    by (simp add: demo_defs)
  have new: "map (new_pass demo_services) (pass_pipeline ?s) = map Inr [''dce'', ''cse'', ''dce'']"
    by (simp add: demo_defs)
  have run: "apply_in_order demo_services [''dce'', ''cse'', ''dce''] ([0, 1], [''m'']) =
      Inr ([0, 1], [''m'', ''dce'', ''cse'', ''dce''])"
    by (simp add: demo_defs)
  note all = fresh_context_passes_in_order [OF nonempty, of demo_services "[0, 1]" "[''m'']" "[''dce'', ''cse'', ''dce'']"
      "[0, 1]" "[''m'', ''dce'', ''cse'', ''dce'']"]
  from all have "take (Suc (Suc (length (get_all_dialects demo_services))))
      (fst (update_current_module demo_services ?s)) =
      Call_MLContext True # map Call_load_dialect (get_all_dialects demo_services) @
      [Call_parse_module
         (foldl (load_dialect demo_services) (MLContext demo_services True)
            (get_all_dialects demo_services))
         (input_text_area ?s)]"
    by (rule conjunct1)
  then have fresh: "take 4 (fst (update_current_module demo_services ?s)) =
      [Call_MLContext True, Call_load_dialect 0, Call_load_dialect 1, Call_parse_module [0, 1] ''m'']"
    by (simp add: demo_services_def demo_app_def numeral_eq_Suc)
  from all parse new run
  have "instantiated_classes (fst (update_current_module demo_services ?s)) = pass_pipeline ?s"
    and "applied_passes (fst (update_current_module demo_services ?s)) = [''dce'', ''cse'', ''dce'']"
    and "snd (update_current_module demo_services ?s) =
      ?s\<lparr>current_module := PyModuleOp [''m'', ''dce'', ''cse'', ''dce'']\<rparr>"
    by blast+
  with fresh nonempty show ?thesis
    by simp
qed

subsection \<open>Claim C6\<close>

text \<open>
  Claim C6. With the empty pipeline and a text that parses to the module \<open>m\<close>, the method
  stores \<open>m\<close> itself, and its only calls are those that build the context and the call of
  the parser.
\<close>

theorem empty_pipeline_identity:
  assumes "input_text_area s \<noteq> []"
    and "parse_module svc (load_all_dialects svc) (input_text_area s) = Inr (ctx1, m)"
    and "pass_pipeline s = []"
  shows "update_current_module svc s =
           (load_all_dialects_calls svc @ [Call_parse_module (load_all_dialects svc) (input_text_area s)],
            s\<lparr>current_module := PyModuleOp m\<rparr>)"
  using assms by (auto simp: update_current_module_def try_body_def load_all_dialects_calls_def Let_def)

theorem empty_pipeline_identity_witness:
  "update_current_module demo_services (demo_app\<lparr>pass_pipeline := []\<rparr>) =
     ([Call_MLContext True, Call_load_dialect 0, Call_load_dialect 1, Call_parse_module [0, 1] ''m''],
      demo_app\<lparr>pass_pipeline := [], current_module := PyModuleOp [''m'']\<rparr>)"
proof -
  let ?s = "demo_app\<lparr>pass_pipeline := []\<rparr>"
  have nonempty: "input_text_area ?s \<noteq> []"
    by (simp add: demo_app_def)
  have parse: "parse_module demo_services (load_all_dialects demo_services) (input_text_area ?s) =
      Inr ([0, 1], [''m''])"
    by (simp add: demo_defs)
  have pipeline: "pass_pipeline ?s = []"
    by simp
  from empty_pipeline_identity [OF nonempty parse pipeline] show ?thesis
    by (simp add: demo_services_def demo_app_def load_all_dialects_def load_all_dialects_calls_def)
qed

subsection \<open>Claim C7\<close>

text \<open>
  Claim C7. \<^verbatim>\<open>watch_current_module\<close> writes the text \<^verbatim>\<open>No input\<close> for \<^verbatim>\<open>None\<close>, what the
  printer writes for the exception when an exception is stored, and what the same printer
  writes for the module when a module is stored; it changes nothing else. With the empty
  text and the empty pipeline the output is \<^verbatim>\<open>No input\<close>.
\<close>

theorem watch_current_module_output:
  "watch_current_module svc (s\<lparr>current_module := PyNone\<rparr>) =
     s\<lparr>current_module := PyNone, output_text_area := ''No input''\<rparr> \<and>
   watch_current_module svc (s\<lparr>current_module := PyException e\<rparr>) =
     s\<lparr>current_module := PyException e, output_text_area := Printer_print svc (Inl e)\<rparr> \<and>
   watch_current_module svc (s\<lparr>current_module := PyModuleOp m\<rparr>) =
     s\<lparr>current_module := PyModuleOp m, output_text_area := Printer_print svc (Inr m)\<rparr> \<and>
   output_text_area (watch_current_module svc
       (snd (update_current_module svc (s\<lparr>input_text_area := [], pass_pipeline := []\<rparr>)))) =
     ''No input''"
  by (simp add: watch_current_module_def update_current_module_def)

theorem watch_current_module_output_witness:
  "output_text_area (watch_current_module demo_services (demo_app\<lparr>current_module := PyNone\<rparr>)) =
     ''No input'' \<and>
   output_text_area (watch_current_module demo_services
       (demo_app\<lparr>current_module := PyException ''parse error''\<rparr>)) = ''parse error'' \<and>
   output_text_area (watch_current_module demo_services
       (demo_app\<lparr>current_module := PyModuleOp [''m'', ''dce'']\<rparr>)) = ''mdce''"
  using watch_current_module_output
    [where svc = demo_services and s = demo_app and e = "''parse error''" and m = "[''m'', ''dce'']"]
  by (simp add: demo_services_def)

subsection \<open>Claim C8\<close>

text \<open>
  Claim C8. The label that \<^verbatim>\<open>watch_pass_pipeline\<close> writes is the text \<^verbatim>\<open>xdsl-opt -p \<close>, a line
  feed, and the names of the entries of the pipeline in list order, every name after the
  first behind the separator made of a comma, a space and a line feed. For the pipeline
  \<open>[A, B, A]\<close> it holds the names of \<open>A\<close>, \<open>B\<close> and \<open>A\<close> in this order.
\<close>

theorem watch_pass_pipeline_query:
  "selected_query_label (snd (watch_pass_pipeline svc s)) =
     ''xdsl-opt -p '' @ LF @
     (case map (pass_name svc) (pass_pipeline s) of
        [] \<Rightarrow> []
      | n # ns \<Rightarrow> n @ concat (map (\<lambda>n'. '', '' @ LF @ n') ns)) \<and>
   selected_query_label (snd (watch_pass_pipeline svc (s\<lparr>pass_pipeline := [A, B, A]\<rparr>))) =
     ''xdsl-opt -p '' @ LF @ pass_name svc A @ '', '' @ LF @ pass_name svc B @ '', '' @ LF @
     pass_name svc A"
  by (simp add: watch_pass_pipeline_def Let_def update_current_module_keeps str_join_Cons
      split: list.splits)

theorem watch_pass_pipeline_query_witness:
  "selected_query_label (snd (watch_pass_pipeline demo_services
       (demo_app\<lparr>pass_pipeline := [''dce'', ''cse'', ''dce'']\<rparr>))) =
     ''xdsl-opt -p '' @ LF @ ''dce, '' @ LF @ ''cse, '' @ LF @ ''dce''"
  using watch_pass_pipeline_query
    [where svc = demo_services and s = demo_app and A = "''dce''" and B = "''cse''"]
  by (simp add: demo_services_def)

subsection \<open>Claim C9\<close>

text \<open>
  Claim C9. For a name of a registered pass, \<^verbatim>\<open>update_pass_pipeline\<close> appends one class of
  this name to the end of the pipeline and changes nothing else, whether or not the
  pipeline already holds that class; \<^verbatim>\<open>clear_passes\<close> makes the pipeline empty, whatever
  it was; and every other method leaves the pipeline as it is.
\<close>

theorem pipeline_append_and_clear:
  "(selected_pass \<in> pass_name svc ` set (get_all_passes svc) \<longrightarrow>
      (\<exists>p \<in> set (get_all_passes svc). pass_name svc p = selected_pass \<and>
         update_pass_pipeline svc selected_pass s = s\<lparr>pass_pipeline := pass_pipeline s @ [p]\<rparr>)) \<and>
   clear_passes s = s\<lparr>pass_pipeline := []\<rparr> \<and>
   pass_pipeline (snd (update_current_module svc s)) = pass_pipeline s \<and>
   pass_pipeline (snd (watch_pass_pipeline svc s)) = pass_pipeline s \<and>
   pass_pipeline (watch_current_module svc s) = pass_pipeline s \<and>
   pass_pipeline (clear_input s) = pass_pipeline s \<and>
   pass_pipeline (copy_output s) = pass_pipeline s \<and>
   pass_pipeline (copy_query svc s) = pass_pipeline s"
proof -
  have "\<exists>p \<in> set (get_all_passes svc). pass_name svc p = selected_pass \<and>
         update_pass_pipeline svc selected_pass s = s\<lparr>pass_pipeline := pass_pipeline s @ [p]\<rparr>"
    if "selected_pass \<in> pass_name svc ` set (get_all_passes svc)"
  proof -
    from that obtain q where "(selected_pass, q) \<in> set (ALL_PASSES svc)"
      by (auto simp: set_ALL_PASSES)
    from update_pass_pipeline_loop_found [OF this, of s]
    show ?thesis
      by (auto simp: update_pass_pipeline_def set_ALL_PASSES)
  qed
  then show ?thesis
    by (simp add: clear_passes_def update_current_module_keeps watch_pass_pipeline_def Let_def
        watch_current_module_def clear_input_def copy_output_def copy_query_def)
qed

theorem pipeline_append_and_clear_witness:
  "''dce'' \<in> pass_name demo_services ` set (get_all_passes demo_services) \<and>
   pass_pipeline demo_app = [''dce'', ''bad'', ''cse''] \<and>
   pass_pipeline (update_pass_pipeline demo_services ''dce'' demo_app) =
     [''dce'', ''bad'', ''cse'', ''dce''] \<and>
   pass_pipeline (clear_passes (update_pass_pipeline demo_services ''dce'' demo_app)) = []"
proof -
  have registered: "''dce'' \<in> pass_name demo_services ` set (get_all_passes demo_services)"
    by (simp add: demo_services_def)
  from pipeline_append_and_clear [of "''dce''" demo_services demo_app] registered
  obtain p where "pass_name demo_services p = ''dce''"
    and "update_pass_pipeline demo_services ''dce'' demo_app =
      demo_app\<lparr>pass_pipeline := pass_pipeline demo_app @ [p]\<rparr>"
    by blast
  moreover from this have "p = ''dce''"
    by (simp add: demo_services_def)
  ultimately show ?thesis
    using registered pipeline_append_and_clear [of "''dce''" demo_services "update_pass_pipeline demo_services ''dce'' demo_app"]
    by (simp add: demo_app_def clear_passes_def)
qed

subsection \<open>Claim C10\<close>

text \<open>
  Claim C10. The text that \<^verbatim>\<open>copy_query\<close> hands to the pasteboard is the text that
  \<^verbatim>\<open>watch_pass_pipeline\<close> writes into the label, for every pipeline.
\<close>

theorem copy_query_matches_label:
  "pasteboard (copy_query svc s) = Some (selected_query_label (snd (watch_pass_pipeline svc s)))"
  by (simp add: copy_query_def watch_pass_pipeline_def Let_def update_current_module_keeps)

theorem copy_query_matches_label_witness:
  "pasteboard (copy_query demo_services demo_app) =
     Some (''xdsl-opt -p '' @ LF @ ''dce, '' @ LF @ ''bad, '' @ LF @ ''cse'') \<and>
   selected_query_label (snd (watch_pass_pipeline demo_services demo_app)) =
     ''xdsl-opt -p '' @ LF @ ''dce, '' @ LF @ ''bad, '' @ LF @ ''cse''"
proof -
  have "pasteboard (copy_query demo_services demo_app) =
     Some (''xdsl-opt -p '' @ LF @ ''dce, '' @ LF @ ''bad, '' @ LF @ ''cse'')"
    by (simp add: copy_query_def demo_services_def demo_app_def)
  with copy_query_matches_label [of demo_services demo_app] show ?thesis
    by simp
qed

end
